theory Spec2Isabelle
  imports Main
begin

section \<open>go/vt/schemadiff/types.go: constants\<close>

text \<open>
  Every constant block of the file is written with \<^verbatim>\<open>iota\<close>: the first line of a
  block is \<^verbatim>\<open>iota\<close> itself and each following line repeats it, so the constant on
  line \<open>i\<close> of its block (counted from 0) has the value \<open>i\<close>. Go's \<^verbatim>\<open>int\<close> is
  modelled by \<^typ>\<open>int\<close>: no arithmetic is done on these codes, so its width plays
  no role.
\<close>

definition iota :: "nat \<Rightarrow> int" where
  "iota line = int line"

type_synonym InstantDDLCapability = int

definition InstantDDLCapabilityUnknown :: InstantDDLCapability where
  "InstantDDLCapabilityUnknown = iota 0"

definition InstantDDLCapabilityIrrelevant :: InstantDDLCapability where
  "InstantDDLCapabilityIrrelevant = iota 1"

definition InstantDDLCapabilityImpossible :: InstantDDLCapability where
  "InstantDDLCapabilityImpossible = iota 2"

definition InstantDDLCapabilityPossible :: InstantDDLCapability where
  "InstantDDLCapabilityPossible = iota 3"

text \<open>The named values of the type, in the order of their declaration.\<close>

definition InstantDDLCapability_values :: "InstantDDLCapability list" where
  "InstantDDLCapability_values =
     [InstantDDLCapabilityUnknown, InstantDDLCapabilityIrrelevant,
      InstantDDLCapabilityImpossible, InstantDDLCapabilityPossible]"

text \<open>
  Go gives every variable that is declared without a value the zero value of its type:
  \<open>0\<close> for an integer type, \<^verbatim>\<open>false\<close> for \<^verbatim>\<open>bool\<close>.
\<close>

definition zero_int :: int where
  "zero_int = 0"



definition AutoIncrementApplyHigher :: int where
  "AutoIncrementApplyHigher = iota 1"

definition AutoIncrementApplyAlways :: int where
  "AutoIncrementApplyAlways = iota 2"


definition RangeRotationDistinctStatements :: int where
  "RangeRotationDistinctStatements = iota 1"

definition RangeRotationIgnore :: int where
  "RangeRotationIgnore = iota 2"



definition ConstraintNamesStrict :: int where
  "ConstraintNamesStrict = iota 2"






definition FullTextKeyUnifyStatements :: int where
  "FullTextKeyUnifyStatements = iota 1"


definition TableCharsetCollateIgnoreEmpty :: int where
  "TableCharsetCollateIgnoreEmpty = iota 1"

definition TableCharsetCollateIgnoreAlways :: int where
  "TableCharsetCollateIgnoreAlways = iota 2"


definition TableQualifierDeclared :: int where
  "TableQualifierDeclared = iota 1"


definition AlterTableAlgorithmStrategyInstant :: int where
  "AlterTableAlgorithmStrategyInstant = iota 1"

definition AlterTableAlgorithmStrategyInplace :: int where
  "AlterTableAlgorithmStrategyInplace = iota 2"

definition AlterTableAlgorithmStrategyCopy :: int where
  "AlterTableAlgorithmStrategyCopy = iota 3"


definition EnumReorderStrategyReject :: int where
  "EnumReorderStrategyReject = iota 1"




definition SubsequentDiffStrategyReject :: int where
  "SubsequentDiffStrategyReject = iota 1"

section \<open>DiffHints\<close>



section \<open>ForeignKeyTableColumns\<close>

text \<open>
  A Go string is a sequence of bytes, as \<^typ>\<open>string\<close> is; a slice of strings is a
  list, and a \<^verbatim>\<open>nil\<close> slice has length 0 as the empty one has: both are \<open>[]\<close>.
\<close>

record ForeignKeyTableColumns =
  Table :: string
  Columns :: "string list"

text \<open>The run-time panic of an assignment \<^verbatim>\<open>s[i] = v\<close> with \<open>i\<close> out of range.\<close>

datatype panic = IndexOutOfRange

text \<open>
  \<^verbatim>\<open>strings.Builder\<close>: the state of a builder is the text written so far;
  \<^verbatim>\<open>WriteString\<close> appends to it and \<^verbatim>\<open>String\<close> reads it.
\<close>

type_synonym Builder = string

definition new_Builder :: Builder where
  "new_Builder = []"

definition WriteString :: "Builder \<Rightarrow> string \<Rightarrow> Builder" where
  "WriteString b s = b @ s"

definition String :: "Builder \<Rightarrow> string" where
  "String b = b"

text \<open>
  \<^verbatim>\<open>strings.Join(elems, sep)\<close> of Go's standard library: the empty string for no
  element, the element itself for one, and otherwise a builder that receives the first
  element and then, for each further element, the separator and the element. (Its
  panic on a result longer than the largest \<^verbatim>\<open>int\<close> needs more text than a
  machine holds and is left out.)
\<close>

fun Join :: "string list \<Rightarrow> string \<Rightarrow> string" where
  "Join [] sep = []"
| "Join [e] sep = e"
| "Join (e # es) sep =
     String (foldl (\<lambda>b s. WriteString (WriteString b sep) s) (WriteString new_Builder e) es)"

text \<open>
  The loop \<^verbatim>\<open>for i, column := range f.Columns { escapedColumns[i] = EscapeID(column) }\<close>:
  the columns still to visit, the index \<open>i\<close> of the first of them, and the slice
  written so far. The assignment panics when \<open>i\<close> is not an index of the slice.
\<close>

fun escape_loop ::
  "(string \<Rightarrow> string) \<Rightarrow> string list \<Rightarrow> nat \<Rightarrow> string list \<Rightarrow> panic + string list" where
  "escape_loop esc [] i escapedColumns = Inr escapedColumns"
| "escape_loop esc (column # rest) i escapedColumns =
     (if i < length escapedColumns
      then escape_loop esc rest (Suc i) (escapedColumns[i := esc column])
      else Inl IndexOutOfRange)"

text \<open>
  \<^verbatim>\<open>Escaped\<close>, with the identifier-escaping routine \<^verbatim>\<open>sqlescape.EscapeID\<close> (a
  collaborator that lives outside this file) as the parameter \<open>esc\<close>.
  \<^verbatim>\<open>make([]string, n)\<close> is a slice of \<open>n\<close> empty strings.
\<close>

definition Escaped :: "(string \<Rightarrow> string) \<Rightarrow> ForeignKeyTableColumns \<Rightarrow> panic + string" where
  "Escaped esc f =
     (let b = WriteString new_Builder (esc (Table f));
          b = WriteString b '' ('';
          escapedColumns = replicate (length (Columns f)) []
      in case escape_loop esc (Columns f) 0 escapedColumns of
           Inl p \<Rightarrow> Inl p
         | Inr escapedColumns \<Rightarrow>
             (let b = WriteString b (Join escapedColumns '', '');
                  b = WriteString b '')''
              in Inr (String b)))"

text \<open>
  Modelled from the spec: \<^verbatim>\<open>sqlescape.EscapeID\<close>, the identifier-escaping routine
  that \<^verbatim>\<open>Escaped\<close> imports. The spec shows its result as the name between
  backquotes (\<^verbatim>\<open>`orders`\<close>) and says that it quotes and escapes a raw name for safe
  embedding in SQL: a backquote inside the name is doubled, which is how a backquoted
  SQL identifier carries one.
\<close>

fun escape_chars :: "string \<Rightarrow> string" where
  "escape_chars [] = []"
| "escape_chars (c # cs) =
     (if c = CHR 0x60 then c # CHR 0x60 # escape_chars cs else c # escape_chars cs)"

text \<open>
  Modelled from the spec: \<^verbatim>\<open>sqlescape.EscapeID\<close> itself, which is missing: the
  escaped characters of the name between two backquotes.
\<close>

definition EscapeID :: "string \<Rightarrow> string" where
  "EscapeID name = CHR 0x60 # escape_chars name @ [CHR 0x60]"

subsection \<open>The rendering as the specification words it\<close>

text \<open>
  The elements of a list in their order, with the separator between each two
  neighbours.
\<close>

fun joined_by :: "string \<Rightarrow> string list \<Rightarrow> string" where
  "joined_by sep [] = []"
| "joined_by sep [x] = x"
| "joined_by sep (x # y # ys) = x @ sep @ joined_by sep (y # ys)"

text \<open>
  The escaped table name, a single space, an opening parenthesis, the escaped column
  names in the order of the list joined by \<^verbatim>\<open>", "\<close>, and a closing parenthesis.
\<close>

definition rendering :: "(string \<Rightarrow> string) \<Rightarrow> ForeignKeyTableColumns \<Rightarrow> string" where
  "rendering esc f =
     esc (Table f) @ '' '' @ ''('' @ joined_by '', '' (map esc (Columns f)) @ '')''"

section \<open>Entity and EntityDiff\<close>

text \<open>
  \<^verbatim>\<open>types.go\<close> declares \<^verbatim>\<open>Entity\<close> and \<^verbatim>\<open>EntityDiff\<close> as interfaces. The types
  that implement them, for tables and for views, are in other files of the package,
  so the definitions of this section follow the specification and the comments of the
  two interfaces.
\<close>

datatype EntityKind = TableKind | ViewKind













subsection \<open>Chains in the store\<close>




section \<open>Facts about the constants\<close>

lemma iota_simps:
  "iota 0 = 0" "iota (Suc 0) = 1" "iota 1 = 1" "iota 2 = 2" "iota 3 = 3"
  by (simp_all add: iota_def)

text \<open>
  C10: the type \<^verbatim>\<open>InstantDDLCapability\<close> has four named values, with the codes
  Unknown = 0, Irrelevant = 1, Impossible = 2 and Possible = 3, pairwise different; the
  zero value of the type is Unknown, which is what a capability that was never set
  reads as.
\<close>

theorem InstantDDLCapability_codes:
  "InstantDDLCapabilityUnknown = 0 \<and>
   InstantDDLCapabilityIrrelevant = 1 \<and>
   InstantDDLCapabilityImpossible = 2 \<and>
   InstantDDLCapabilityPossible = 3 \<and>
   length InstantDDLCapability_values = 4 \<and>
   distinct InstantDDLCapability_values \<and>
   zero_int = InstantDDLCapabilityUnknown"
  by (simp add: InstantDDLCapability_values_def InstantDDLCapabilityUnknown_def
      InstantDDLCapabilityIrrelevant_def InstantDDLCapabilityImpossible_def
      InstantDDLCapabilityPossible_def zero_int_def iota_simps)


section \<open>Facts about Escaped\<close>

text \<open>
  The loop writes the escaped columns into the slots \<open>i, i + 1, ...\<close> of the slice and
  leaves the others as they were; it cannot panic while the slice is long enough.
\<close>

lemma escape_loop_fills:
  "i + length cols \<le> length out \<Longrightarrow>
   escape_loop esc cols i out = Inr (take i out @ map esc cols @ drop (i + length cols) out)"
proof (induction cols arbitrary: i out)
  case Nil
  then show ?case by simp
next
  case (Cons c cols)
  from Cons.prems have lt: "i < length out" by simp
  from Cons.prems have le: "Suc i + length cols \<le> length (out[i := esc c])" by simp
  have "take (Suc i) (out[i := esc c]) = take i out @ [esc c]"
    using lt by (simp add: take_Suc_conv_app_nth)
  moreover have "drop (Suc i + length cols) (out[i := esc c]) = drop (Suc (i + length cols)) out"
    by simp
  ultimately show ?case
    using lt Cons.IH [OF le] by simp
qed

lemma escape_loop_make:
  "escape_loop esc cols 0 (replicate (length cols) []) = Inr (map esc cols)"
  using escape_loop_fills [of 0 cols "replicate (length cols) []" esc] by simp

lemma foldl_write:
  "foldl (\<lambda>b s. WriteString (WriteString b sep) s) acc es = acc @ concat (map (\<lambda>s. sep @ s) es)"
  by (induction es arbitrary: acc) (simp_all add: WriteString_def)

lemma joined_by_Cons:
  "joined_by sep (x # ys) = x @ concat (map (\<lambda>s. sep @ s) ys)"
  by (induction ys arbitrary: x) simp_all

lemma Join_Cons: "Join (e # es) sep = e @ concat (map (\<lambda>s. sep @ s) es)"
proof (cases es)
  case Nil
  then show ?thesis by simp
next
  case (Cons e' rest)
  have "Join (e # e' # rest) sep =
      String (WriteString new_Builder e @ concat (map (\<lambda>s. sep @ s) (e' # rest)))"
    by (simp only: Join.simps foldl_write)
  then show ?thesis
    using Cons by (simp add: String_def WriteString_def new_Builder_def)
qed

lemma Join_joined_by: "Join es sep = joined_by sep es"
proof (cases es)
  case Nil
  then show ?thesis by simp
next
  case (Cons e rest)
  then show ?thesis by (simp only: Join_Cons joined_by_Cons)
qed

lemma Escaped_eq: "Escaped esc f = Inr (rendering esc f)"
  by (simp add: Escaped_def rendering_def escape_loop_make Join_joined_by
      WriteString_def String_def new_Builder_def)

text \<open>
  C1: for a reference with at least one column, \<^verbatim>\<open>Escaped\<close> returns the escaped table
  name, a space, an opening parenthesis, the escaped columns in the order of the list
  joined by \<^verbatim>\<open>", "\<close>, and a closing parenthesis; the reference to column
  \<^verbatim>\<open>user_id\<close> of table \<^verbatim>\<open>orders\<close> renders as \<^verbatim>\<open>`orders` (`user_id`)\<close>; and equal
  references render to equal strings.
\<close>

theorem Escaped_renders:
  "(Columns f \<noteq> [] \<longrightarrow> Escaped esc f = Inr (rendering esc f)) \<and>
   Escaped EscapeID \<lparr>Table = ''orders'', Columns = [''user_id'']\<rparr> = Inr ''`orders` (`user_id`)'' \<and>
   (f = g \<longrightarrow> Escaped esc f = Escaped esc g)"
  by (simp add: Escaped_eq rendering_def EscapeID_def)

theorem Escaped_renders_witness:
  "Columns \<lparr>Table = ''orders'', Columns = [''user_id'', ''item_id'']\<rparr> \<noteq> [] \<and>
   Escaped EscapeID \<lparr>Table = ''orders'', Columns = [''user_id'', ''item_id'']\<rparr> =
     Inr ''`orders` (`user_id`, `item_id`)''"
  using Escaped_renders [of "\<lparr>Table = ''orders'', Columns = [''user_id'', ''item_id'']\<rparr>" EscapeID
      "\<lparr>Table = ''orders'', Columns = [''user_id'', ''item_id'']\<rparr>"]
  by (simp add: rendering_def EscapeID_def)

text \<open>
  C9: \<^verbatim>\<open>Escaped\<close> returns a string for every reference, whatever its column list: the
  loop never panics. For an empty (or nil) column list the result is the escaped table
  name followed by \<^verbatim>\<open>" ()"\<close>; nothing asks for a column.
\<close>

theorem Escaped_total:
  "(\<exists>s. Escaped esc f = Inr s) \<and>
   Escaped esc \<lparr>Table = t, Columns = []\<rparr> = Inr (esc t @ '' ()'')"
  by (simp add: Escaped_eq rendering_def)

text \<open>
  C2, as the code has it: the type is a struct with exported fields and no constructor,
  so a reference is built from any table name and any column list, the empty one
  included, and holds exactly these; nothing is rejected at construction. Operations
  on a reference still never fail on an empty column list: \<^verbatim>\<open>Escaped\<close>, the only one,
  returns a string.
\<close>

theorem ForeignKeyTableColumns_unchecked:
  "Table \<lparr>Table = t, Columns = cs\<rparr> = t \<and>
   Columns \<lparr>Table = t, Columns = cs\<rparr> = cs \<and>
   (\<exists>s. Escaped esc \<lparr>Table = t, Columns = cs\<rparr> = Inr s)"
  by (simp add: Escaped_eq)

text \<open>
  C2, as the spec has it, fails: the struct literal with no column is a value of the
  type, and \<^verbatim>\<open>Escaped\<close> renders it.
\<close>

theorem ForeignKeyTableColumns_empty_Columns:
  "Columns \<lparr>Table = ''orders'', Columns = []\<rparr> = [] \<and>
   Escaped EscapeID \<lparr>Table = ''orders'', Columns = []\<rparr> = Inr ''`orders` ()''"
  by (simp add: Escaped_eq rendering_def EscapeID_def)

section \<open>Facts about entity diffs\<close>



subsection \<open>Chains and the store\<close>












end
